theory Spec2Isabelle
  imports Complex_Main "HOL-Library.Product_Lexorder" "HOL-Library.List_Lexorder"
    "HOL-Library.Char_ord" "HOL-Library.Multiset"
begin

section \<open>The academic service (acad-service/main.py)\<close>

text \<open>
  The service is a set of request handlers over four tables of a relational store.
  The tables are modelled as lists of rows (a list keeps the physical order of the rows,
  which an unordered query returns), a handler as a function from the store and the
  request to the response, and every \<^verbatim>\<open>raise\<close> as a value on the left of a sum.
\<close>

subsection \<open>Tables (the ORM classes)\<close>

text \<open>
  \<^verbatim>\<open>nullable\<close> is the default of a column that is not part of the primary key, so
  \<^verbatim>\<open>jurusan\<close>, \<^verbatim>\<open>angkatan\<close>, \<^verbatim>\<open>nilai\<close> and \<^verbatim>\<open>semester\<close> may hold NULL
  (\<open>None\<close>). A \<^verbatim>\<open>Float\<close> column holds a binary64 number; the finite ones are modelled
  by their exact rational value.
\<close>

record Mahasiswa =
  mhs_nim :: string
  mhs_nama :: string
  mhs_jurusan :: "string option"
  mhs_angkatan :: "int option"

record MataKuliah =
  mk_kode_mk :: string
  mk_nama_mk :: string
  mk_sks :: int

record KRS =
  krs_id_krs :: int
  krs_nim :: string
  krs_kode_mk :: string
  krs_nilai :: "string option"
  krs_semester :: "int option"

record BobotNilai =
  bn_nilai :: string
  bn_bobot :: rat

text \<open>
  The store: the four tables and the sequence behind the autoincrement key of
  \<^verbatim>\<open>krs\<close>.
\<close>

record database =
  tbl_mahasiswa :: "Mahasiswa list"
  tbl_mata_kuliah :: "MataKuliah list"
  tbl_krs :: "KRS list"
  tbl_bobot_nilai :: "BobotNilai list"
  krs_id_seq :: int

subsection \<open>Errors\<close>

datatype py_exn = IntegrityError | ZeroDivisionError

text \<open>
  The detail of an \<^verbatim>\<open>HTTPException\<close> is a literal of the source,
  \<^verbatim>\<open>str(e)\<close> of a caught exception, or the framework's list of validation errors.
\<close>

datatype detail = Msg string | Str_of py_exn | Validation

datatype http_error = HTTPException nat detail

subsection \<open>Request schemas (the pydantic classes)\<close>

record MahasiswaSchema =
  s_nim :: string
  s_nama :: string
  s_jurusan :: string
  s_angkatan :: int

record KRSSchema =
  k_nim :: string
  k_kode_mk :: string
  k_nilai :: string
  k_semester :: int

record IPSRequest =
  r_nim :: string
  r_semester :: int

subsection \<open>\<^verbatim>\<open>get_krs\<close>: the enrollments of a student\<close>

text \<open>One dictionary of the \<^verbatim>\<open>data\<close> list of the response.\<close>

record KRSRow =
  row_id_krs :: int
  row_nim :: string
  row_nama_mahasiswa :: string
  row_kode_mk :: string
  row_nama_mk :: string
  row_sks :: int
  row_nilai :: "string option"
  row_semester :: "int option"

text \<open>
  \<^verbatim>\<open>db.query(...).join(Mahasiswa, KRS.nim == Mahasiswa.nim)
     .join(MataKuliah, KRS.kode_mk == MataKuliah.kode_mk).filter(KRS.nim == nim)\<close>:
  two inner joins and a selection.
\<close>

definition krs_query :: "database \<Rightarrow> string \<Rightarrow> (KRS \<times> Mahasiswa \<times> MataKuliah) list" where
  "krs_query db nim =
     [(k, m, c). k \<leftarrow> tbl_krs db, m \<leftarrow> tbl_mahasiswa db, krs_nim k = mhs_nim m,
                 c \<leftarrow> tbl_mata_kuliah db, krs_kode_mk k = mk_kode_mk c, krs_nim k = nim]"

text \<open>
  \<^verbatim>\<open>if semester:\<close> is Python's truth test of an \<^verbatim>\<open>Optional[int]\<close>: \<^verbatim>\<open>None\<close>
  and \<^verbatim>\<open>0\<close> are both false.
\<close>

fun truthy :: "int option \<Rightarrow> bool" where
  "truthy None = False"
| "truthy (Some n) = (n \<noteq> 0)"

text \<open>
  \<^verbatim>\<open>order_by(KRS.semester, MataKuliah.kode_mk)\<close>: ascending, NULL after every number
  (the store's default for an ascending key), the codes compared character by character.
  The order of two rows with the same term and code is the store's choice; the model
  takes the stable insertion sort of the list library over the order of the tables, so
  only the order of rows with different keys is meant.
\<close>

fun nulls_last :: "int option \<Rightarrow> nat \<times> int" where
  "nulls_last None = (1, 0)"
| "nulls_last (Some t) = (0, t)"

definition order_key :: "KRS \<times> Mahasiswa \<times> MataKuliah \<Rightarrow> (nat \<times> int) \<times> string" where
  "order_key = (\<lambda>(k, m, c). (nulls_last (krs_semester k), mk_kode_mk c))"

definition krs_row :: "KRS \<times> Mahasiswa \<times> MataKuliah \<Rightarrow> KRSRow" where
  "krs_row = (\<lambda>(k, m, c).
     \<lparr>row_id_krs = krs_id_krs k, row_nim = krs_nim k, row_nama_mahasiswa = mhs_nama m,
      row_kode_mk = mk_kode_mk c, row_nama_mk = mk_nama_mk c, row_sks = mk_sks c,
      row_nilai = krs_nilai k, row_semester = krs_semester k\<rparr>)"

text \<open>
  The handler returns \<^verbatim>\<open>{"success": True, "data": krs_list}\<close>; the model returns
  \<^verbatim>\<open>krs_list\<close>. Its only \<^verbatim>\<open>raise\<close> wraps a failure of the store itself, which the
  model does not have.
\<close>

definition get_krs :: "database \<Rightarrow> string \<Rightarrow> int option \<Rightarrow> KRSRow list" where
  "get_krs db nim semester =
     (let query = krs_query db nim;
          query = (if truthy semester
                   then filter (\<lambda>(k, m, c). krs_semester k = semester) query
                   else query);
          results = sort_key order_key query
      in map krs_row results)"

subsection \<open>\<^verbatim>\<open>create_mahasiswa\<close>\<close>

text \<open>
  \<^verbatim>\<open>db.add(new_mhs); db.commit()\<close>: the store inserts the row unless the primary key
  \<^verbatim>\<open>nim\<close> (\<^verbatim>\<open>primary_key=True\<close>) is already there, in which case the commit raises
  and the table is as before. Of the checks of the store only this one is modelled: a value
  too long for its column or an integer out of range is refused by the store as well.
\<close>

definition commit_mahasiswa :: "database \<Rightarrow> Mahasiswa \<Rightarrow> py_exn + database" where
  "commit_mahasiswa db new_mhs =
     (if mhs_nim new_mhs \<in> set (map mhs_nim (tbl_mahasiswa db)) then Inl IntegrityError
      else Inr (db\<lparr>tbl_mahasiswa := tbl_mahasiswa db @ [new_mhs]\<rparr>))"

text \<open>
  The handler: the new store and either the \<^verbatim>\<open>data\<close> of the response or the
  \<^verbatim>\<open>HTTPException\<close> of the \<^verbatim>\<open>except\<close> branch, which follows \<^verbatim>\<open>db.rollback()\<close>.
\<close>

definition create_mahasiswa ::
    "database \<Rightarrow> MahasiswaSchema \<Rightarrow> database \<times> (http_error + Mahasiswa)" where
  "create_mahasiswa db mhs =
     (let new_mhs = \<lparr>mhs_nim = s_nim mhs, mhs_nama = s_nama mhs,
                     mhs_jurusan = Some (s_jurusan mhs), mhs_angkatan = Some (s_angkatan mhs)\<rparr>
      in case commit_mahasiswa db new_mhs of
           Inr db' \<Rightarrow> (db', Inr new_mhs)
         | Inl e \<Rightarrow> (db, Inl (HTTPException 500 (Str_of e))))"

subsection \<open>\<^verbatim>\<open>create_krs\<close> and the validation of its body\<close>

text \<open>
  The commit of a \<^verbatim>\<open>krs\<close> row: the sequence gives the key (and is not rolled back),
  the key must be new, and the three \<^verbatim>\<open>ForeignKey\<close> columns must point at rows; a NULL
  \<^verbatim>\<open>nilai\<close> points nowhere and is accepted.
\<close>

definition commit_krs :: "database \<Rightarrow> KRS \<Rightarrow> py_exn + database" where
  "commit_krs db new_krs =
     (if krs_id_krs new_krs \<notin> set (map krs_id_krs (tbl_krs db))
         \<and> krs_nim new_krs \<in> set (map mhs_nim (tbl_mahasiswa db))
         \<and> krs_kode_mk new_krs \<in> set (map mk_kode_mk (tbl_mata_kuliah db))
         \<and> (case krs_nilai new_krs of None \<Rightarrow> True
             | Some g \<Rightarrow> g \<in> set (map bn_nilai (tbl_bobot_nilai db)))
      then Inr (db\<lparr>tbl_krs := tbl_krs db @ [new_krs]\<rparr>)
      else Inl IntegrityError)"

definition create_krs :: "database \<Rightarrow> KRSSchema \<Rightarrow> database \<times> (http_error + KRS)" where
  "create_krs db krs =
     (let db1 = db\<lparr>krs_id_seq := krs_id_seq db + 1\<rparr>;
          new_krs = \<lparr>krs_id_krs = krs_id_seq db1, krs_nim = k_nim krs,
                     krs_kode_mk = k_kode_mk krs, krs_nilai = Some (k_nilai krs),
                     krs_semester = Some (k_semester krs)\<rparr>
      in case commit_krs db1 new_krs of
           Inr db' \<Rightarrow> (db', Inr new_krs)
         | Inl e \<Rightarrow> (db1, Inl (HTTPException 500 (Str_of e))))"

text \<open>
  The parameter \<^verbatim>\<open>krs: KRSSchema\<close> makes the framework validate the JSON body against
  the class before it calls the handler, and answer 422 when a field is missing or of the
  wrong type. A JSON object is a map from keys to values. A field declared
  \<^verbatim>\<open>str\<close> accepts a JSON string only; the conversions a field declared \<^verbatim>\<open>int\<close>
  accepts are those of the validation library and are a parameter here.
\<close>

datatype json = JNull | JBool bool | JInt int | JStr string | JOther

definition validate_str :: "json option \<Rightarrow> string option" where
  "validate_str v = (case v of Some (JStr s) \<Rightarrow> Some s | _ \<Rightarrow> None)"

definition validate_int :: "(json \<Rightarrow> int option) \<Rightarrow> json option \<Rightarrow> int option" where
  "validate_int int_of v = (case v of Some j \<Rightarrow> int_of j | None \<Rightarrow> None)"

definition validate_KRSSchema ::
    "(json \<Rightarrow> int option) \<Rightarrow> (string \<rightharpoonup> json) \<Rightarrow> KRSSchema option" where
  "validate_KRSSchema int_of body =
     (case validate_str (body ''nim'') of None \<Rightarrow> None | Some nim \<Rightarrow>
      case validate_str (body ''kode_mk'') of None \<Rightarrow> None | Some kode_mk \<Rightarrow>
      case validate_str (body ''nilai'') of None \<Rightarrow> None | Some nilai \<Rightarrow>
      case validate_int int_of (body ''semester'') of None \<Rightarrow> None | Some semester \<Rightarrow>
        Some \<lparr>k_nim = nim, k_kode_mk = kode_mk, k_nilai = nilai, k_semester = semester\<rparr>)"

text \<open>The route \<^verbatim>\<open>POST /api/acad/krs\<close>: validation, then the handler.\<close>

definition post_krs ::
    "(json \<Rightarrow> int option) \<Rightarrow> database \<Rightarrow> (string \<rightharpoonup> json) \<Rightarrow> database \<times> (http_error + KRS)" where
  "post_krs int_of db body =
     (case validate_KRSSchema int_of body of
        None \<Rightarrow> (db, Inl (HTTPException 422 Validation))
      | Some krs \<Rightarrow> create_krs db krs)"

subsection \<open>Python's \<^verbatim>\<open>float\<close>\<close>

text \<open>
  A finite binary64 number is modelled by its rational value, and an operation by the
  exact operation followed by \<open>rnd\<close>, the rounding to the nearest number with a 53-bit
  significand, a tie going to the even significand. Overflow and subnormal numbers are
  outside the model: it is exact for results between \<open>2 ^ -1022\<close> and \<open>2 ^ 1024\<close>
  in magnitude.
\<close>

function bitlen :: "int \<Rightarrow> int" where
  "bitlen n = (if n \<le> 0 then 0 else 1 + bitlen (n div 2))"
  by pat_completeness auto
termination
  by (relation "measure nat") auto

definition pow2 :: "int \<Rightarrow> rat" where
  "pow2 e = (if 0 \<le> e then 2 ^ nat e else 1 / 2 ^ nat (- e))"

definition round_half_even :: "rat \<Rightarrow> int" where
  "round_half_even x =
     (let f = \<lfloor>x\<rfloor>; d = x - of_int f
      in if d < 1 / 2 then f else if 1 / 2 < d then f + 1
         else if even f then f else f + 1)"

text \<open>The exponent \<open>e\<close> with \<open>2 ^ e \<le> a < 2 ^ (e + 1)\<close>, for \<open>a > 0\<close>.\<close>

definition ilog2 :: "rat \<Rightarrow> int" where
  "ilog2 a =
     (let (n, d) = quotient_of a;
          e = bitlen n - bitlen d
      in if pow2 e \<le> a then e else e - 1)"

definition rnd :: "rat \<Rightarrow> rat" where
  "rnd q =
     (if q = 0 then 0
      else let u = pow2 (ilog2 \<bar>q\<bar> - 52)
           in of_int (round_half_even (q / u)) * u)"

text \<open>
  \<^verbatim>\<open>bobot * sks\<close>, a float times an int, and \<^verbatim>\<open>total_bobot += bobot_x_sks\<close>.
  The int operand becomes a float first; for a value of an \<^verbatim>\<open>Integer\<close> column, below
  \<open>2 ^ 53\<close> in magnitude, that conversion is exact.
\<close>

definition float_mul_int :: "rat \<Rightarrow> int \<Rightarrow> rat" where
  "float_mul_int x n = rnd (x * of_int n)"

definition float_add :: "rat \<Rightarrow> rat \<Rightarrow> rat" where
  "float_add x y = rnd (x + y)"

text \<open>\<^verbatim>\<open>total_bobot / total_sks\<close>: true division raises on a zero divisor.\<close>

definition py_truediv :: "rat \<Rightarrow> int \<Rightarrow> py_exn + rat" where
  "py_truediv x n = (if n = 0 then Inl ZeroDivisionError else Inr (rnd (x / of_int n)))"

text \<open>
  \<^verbatim>\<open>round(x, 2)\<close>: the exact value of \<open>x\<close> is rounded to two decimals, a tie going
  to the even digit, and the decimal result is read back as a float.
\<close>

definition py_round2 :: "rat \<Rightarrow> rat" where
  "py_round2 x = rnd (of_int (round_half_even (x * 100)) / 100)"

subsection \<open>\<^verbatim>\<open>calculate_ips\<close>\<close>

text \<open>A row of the query: \<^verbatim>\<open>MataKuliah.sks, BobotNilai.bobot, MataKuliah.nama_mk, KRS.nilai\<close>.\<close>

record IPSRow =
  q_sks :: int
  q_bobot :: rat
  q_nama_mk :: string
  q_nilai :: "string option"

text \<open>
  \<^verbatim>\<open>.join(MataKuliah, ...).join(BobotNilai, KRS.nilai == BobotNilai.nilai)
     .filter(KRS.nim == request.nim, KRS.semester == request.semester).all()\<close>.
  A comparison with NULL is never true, so a row with a NULL \<^verbatim>\<open>nilai\<close> or
  \<^verbatim>\<open>semester\<close> is in no result. There is no \<^verbatim>\<open>order_by\<close>: the rows come in the
  order of the \<^verbatim>\<open>krs\<close> table.
\<close>

definition ips_query :: "database \<Rightarrow> IPSRequest \<Rightarrow> IPSRow list" where
  "ips_query db request =
     [\<lparr>q_sks = mk_sks c, q_bobot = bn_bobot b, q_nama_mk = mk_nama_mk c, q_nilai = krs_nilai k\<rparr>.
        k \<leftarrow> tbl_krs db, c \<leftarrow> tbl_mata_kuliah db, krs_kode_mk k = mk_kode_mk c,
        b \<leftarrow> tbl_bobot_nilai db, krs_nilai k = Some (bn_nilai b),
        krs_nim k = r_nim request, krs_semester k = Some (r_semester request)]"

record IPSDetail =
  d_mata_kuliah :: string
  d_sks :: int
  d_nilai :: "string option"
  d_bobot :: rat
  d_bobot_x_sks :: rat

record IPSData =
  p_nim :: string
  p_nama :: string
  p_semester :: int
  p_ips :: rat
  p_total_sks :: int
  p_total_bobot :: rat
  p_details :: "IPSDetail list"

text \<open>
  The \<^verbatim>\<open>for row in results\<close> loop, on the state
  \<^verbatim>\<open>(total_bobot, total_sks, details)\<close>. \<^verbatim>\<open>total_bobot\<close> starts as the int
  \<^verbatim>\<open>0\<close>; adding the first float to it gives that float.
\<close>

fun ips_loop :: "IPSRow list \<Rightarrow> rat \<times> int \<times> IPSDetail list \<Rightarrow> rat \<times> int \<times> IPSDetail list" where
  "ips_loop [] acc = acc"
| "ips_loop (row # rows) (total_bobot, total_sks, details) =
     (let sks = q_sks row; bobot = q_bobot row; nama_mk = q_nama_mk row; nilai = q_nilai row;
          bobot_x_sks = float_mul_int bobot sks
      in ips_loop rows
           (float_add total_bobot bobot_x_sks, total_sks + sks,
            details @ [\<lparr>d_mata_kuliah = nama_mk, d_sks = sks, d_nilai = nilai, d_bobot = bobot,
                        d_bobot_x_sks = py_round2 bobot_x_sks\<rparr>]))"

text \<open>
  \<^verbatim>\<open>ips = total_bobot / total_sks if total_sks > 0 else 0\<close>. The int \<^verbatim>\<open>0\<close> of
  the second branch and the float \<^verbatim>\<open>0.0\<close> are the same value here.
\<close>

definition ips_value :: "rat \<Rightarrow> int \<Rightarrow> py_exn + rat" where
  "ips_value total_bobot total_sks =
     (if total_sks > 0 then py_truediv total_bobot total_sks else Inr 0)"

text \<open>\<^verbatim>\<open>db.query(Mahasiswa).filter(Mahasiswa.nim == request.nim).first()\<close>\<close>

definition first_mahasiswa :: "database \<Rightarrow> string \<Rightarrow> Mahasiswa option" where
  "first_mahasiswa db nim =
     (case filter (\<lambda>m. mhs_nim m = nim) (tbl_mahasiswa db) of [] \<Rightarrow> None | m # _ \<Rightarrow> Some m)"

definition calculate_ips :: "database \<Rightarrow> IPSRequest \<Rightarrow> http_error + IPSData" where
  "calculate_ips db request =
     (let results = ips_query db request
      in if results = []
         then Inl (HTTPException 404 (Msg ''No KRS data found for this semester''))
         else
           let (total_bobot, total_sks, details) = ips_loop results (0, 0, [])
           in case ips_value total_bobot total_sks of
                Inl e \<Rightarrow> Inl (HTTPException 500 (Str_of e))
              | Inr ips \<Rightarrow>
                  let mhs = first_mahasiswa db (r_nim request);
                      nama_mahasiswa = (case mhs of Some m \<Rightarrow> mhs_nama m | None \<Rightarrow> ''Unknown'')
                  in Inr \<lparr>p_nim = r_nim request, p_nama = nama_mahasiswa,
                          p_semester = r_semester request, p_ips = py_round2 ips,
                          p_total_sks = total_sks, p_total_bobot = py_round2 total_bobot,
                          p_details = details\<rparr>)"

section \<open>Notions the properties are stated with\<close>


text \<open>
  The product of a row as the loop computes it, the float sum of a list from left to
  right, the detail dictionary of a row, the sum of the credits, the display name, and
  the value of the guarded division.
\<close>

definition weighted :: "IPSRow \<Rightarrow> rat" where
  "weighted row = float_mul_int (q_bobot row) (q_sks row)"

definition float_sum :: "rat list \<Rightarrow> rat" where
  "float_sum xs = foldl float_add 0 xs"

definition ips_detail :: "IPSRow \<Rightarrow> IPSDetail" where
  "ips_detail row =
     \<lparr>d_mata_kuliah = q_nama_mk row, d_sks = q_sks row, d_nilai = q_nilai row,
      d_bobot = q_bobot row, d_bobot_x_sks = py_round2 (weighted row)\<rparr>"

definition total_credits :: "IPSRow list \<Rightarrow> int" where
  "total_credits rows = sum_list (map q_sks rows)"

definition nama_of :: "database \<Rightarrow> string \<Rightarrow> string" where
  "nama_of db nim = (case first_mahasiswa db nim of Some m \<Rightarrow> mhs_nama m | None \<Rightarrow> ''Unknown'')"

definition guarded_quotient :: "rat \<Rightarrow> int \<Rightarrow> rat" where
  "guarded_quotient total_bobot total_sks =
     (if 0 < total_sks then rnd (total_bobot / of_int total_sks) else 0)"

text \<open>
  The joined rows that one enrollment contributes to the query of \<^verbatim>\<open>get_krs\<close>, and
  the rows that the handler sorts: the join, filtered when the term passes the test.
\<close>

definition krs_rows_of :: "database \<Rightarrow> string \<Rightarrow> KRS \<Rightarrow> (KRS \<times> Mahasiswa \<times> MataKuliah) list" where
  "krs_rows_of db nim k =
     [(k, m, c). m \<leftarrow> tbl_mahasiswa db, krs_nim k = mhs_nim m,
                 c \<leftarrow> tbl_mata_kuliah db, krs_kode_mk k = mk_kode_mk c, krs_nim k = nim]"


text \<open>
  An enrollment whose grade resolves to no weight: the grade is NULL or is the code of no
  row of \<^verbatim>\<open>bobot_nilai\<close>.
\<close>

definition unresolved_grade :: "database \<Rightarrow> KRS \<Rightarrow> bool" where
  "unresolved_grade db e =
     (case krs_nilai e of None \<Rightarrow> True
      | Some g \<Rightarrow> g \<notin> set (map bn_nilai (tbl_bobot_nilai db)))"

text \<open>The rows that one enrollment contributes to the query of \<^verbatim>\<open>calculate_ips\<close>.\<close>

definition ips_rows_of :: "database \<Rightarrow> IPSRequest \<Rightarrow> KRS \<Rightarrow> IPSRow list" where
  "ips_rows_of db request k =
     [\<lparr>q_sks = mk_sks c, q_bobot = bn_bobot b, q_nama_mk = mk_nama_mk c, q_nilai = krs_nilai k\<rparr>.
        c \<leftarrow> tbl_mata_kuliah db, krs_kode_mk k = mk_kode_mk c,
        b \<leftarrow> tbl_bobot_nilai db, krs_nilai k = Some (bn_nilai b),
        krs_nim k = r_nim request, krs_semester k = Some (r_semester request)]"

text \<open>
  The float accumulation of the products of the rows is exact when it gives their exact
  sum: no addition of the loop was rounded to a different value.
\<close>

definition accumulation_exact :: "IPSRow list \<Rightarrow> bool" where
  "accumulation_exact rows \<longleftrightarrow> float_sum (map weighted rows) = sum_list (map weighted rows)"

subsection \<open>Example stores\<close>

text \<open>
  The example of the specification: student S1 takes C1 (3 credits, grade A of weight 4.0)
  and C2 (2 credits, grade B of weight 3.0) in term 1.
\<close>

definition example_db :: database where
  "example_db =
     \<lparr>tbl_mahasiswa = [\<lparr>mhs_nim = ''S1'', mhs_nama = ''Ani'', mhs_jurusan = Some ''Math'',
                        mhs_angkatan = Some 2023\<rparr>],
      tbl_mata_kuliah = [\<lparr>mk_kode_mk = ''C1'', mk_nama_mk = ''Algebra'', mk_sks = 3\<rparr>,
                         \<lparr>mk_kode_mk = ''C2'', mk_nama_mk = ''Logic'', mk_sks = 2\<rparr>],
      tbl_krs = [\<lparr>krs_id_krs = 1, krs_nim = ''S1'', krs_kode_mk = ''C1'', krs_nilai = Some ''A'',
                  krs_semester = Some 1\<rparr>,
                 \<lparr>krs_id_krs = 2, krs_nim = ''S1'', krs_kode_mk = ''C2'', krs_nilai = Some ''B'',
                  krs_semester = Some 1\<rparr>],
      tbl_bobot_nilai = [\<lparr>bn_nilai = ''A'', bn_bobot = 4\<rparr>, \<lparr>bn_nilai = ''B'', bn_bobot = 3\<rparr>],
      krs_id_seq = 2\<rparr>"

text \<open>The same student with one enrollment in term 0 and one in term 1.\<close>

definition term_zero_db :: database where
  "term_zero_db =
     example_db\<lparr>tbl_krs :=
       [\<lparr>krs_id_krs = 1, krs_nim = ''S1'', krs_kode_mk = ''C1'', krs_nilai = Some ''A'',
         krs_semester = Some 0\<rparr>,
        \<lparr>krs_id_krs = 2, krs_nim = ''S1'', krs_kode_mk = ''C2'', krs_nilai = Some ''B'',
         krs_semester = Some 1\<rparr>]\<rparr>"

text \<open>Requests for the terms 1 and 2 of S1, and a registration that reuses the id S1.\<close>

definition req1 :: IPSRequest where
  "req1 = \<lparr>r_nim = ''S1'', r_semester = 1\<rparr>"

definition req2 :: IPSRequest where
  "req2 = \<lparr>r_nim = ''S1'', r_semester = 2\<rparr>"

definition dup :: MahasiswaSchema where
  "dup = \<lparr>s_nim = ''S1'', s_nama = ''Budi'', s_jurusan = ''Physics'', s_angkatan = 2024\<rparr>"

text \<open>The example with both courses worth no credit, and with the student row missing.\<close>

definition zero_credit_db :: database where
  "zero_credit_db =
     example_db\<lparr>tbl_mata_kuliah :=
       [\<lparr>mk_kode_mk = ''C1'', mk_nama_mk = ''Algebra'', mk_sks = 0\<rparr>,
        \<lparr>mk_kode_mk = ''C2'', mk_nama_mk = ''Logic'', mk_sks = 0\<rparr>]\<rparr>"

definition orphan_db :: database where
  "orphan_db = example_db\<lparr>tbl_mahasiswa := []\<rparr>"

text \<open>
  Bodies of \<^verbatim>\<open>POST /api/acad/krs\<close> with a null and with a proper grade, and a
  conversion that accepts JSON integers only.
\<close>

definition strict_int :: "json \<Rightarrow> int option" where
  "strict_int j = (case j of JInt n \<Rightarrow> Some n | _ \<Rightarrow> None)"

definition null_grade_body :: "string \<rightharpoonup> json" where
  "null_grade_body = map_of [(''nim'', JStr ''S1''), (''kode_mk'', JStr ''C1''),
                            (''nilai'', JNull), (''semester'', JInt 2)]"

definition graded_body :: "string \<rightharpoonup> json" where
  "graded_body = map_of [(''nim'', JStr ''S1''), (''kode_mk'', JStr ''C1''),
                        (''nilai'', JStr ''A''), (''semester'', JInt 2)]"

text \<open>
  An enrollment with a NULL grade and one with a grade that has no weight, each put
  between the two enrollments of the example.
\<close>

definition null_grade_krs :: KRS where
  "null_grade_krs = \<lparr>krs_id_krs = 3, krs_nim = ''S1'', krs_kode_mk = ''C2'', krs_nilai = None,
                      krs_semester = Some 1\<rparr>"

definition unknown_grade_krs :: KRS where
  "unknown_grade_krs = \<lparr>krs_id_krs = 4, krs_nim = ''S1'', krs_kode_mk = ''C1'', krs_nilai = Some ''Z'',
                         krs_semester = Some 1\<rparr>"

definition ungraded_db :: "KRS \<Rightarrow> database" where
  "ungraded_db e = example_db\<lparr>tbl_krs := [hd (tbl_krs example_db)] @ e # tl (tbl_krs example_db)\<rparr>"

text \<open>
  A student with the grades A (4.0), A- (3.7) and C- (1.7) in courses of 1, 1 and 2
  credits, the weights being the floats that the decimals 3.7 and 1.7 denote; the same
  store with the last two enrollments in the other order; and the example of the
  specification with its enrollments in the other order.
\<close>

definition order_db :: database where
  "order_db =
     \<lparr>tbl_mahasiswa = [\<lparr>mhs_nim = ''S1'', mhs_nama = ''Ani'', mhs_jurusan = Some ''Math'',
                        mhs_angkatan = Some 2023\<rparr>],
      tbl_mata_kuliah = [\<lparr>mk_kode_mk = ''K1'', mk_nama_mk = ''Calculus'', mk_sks = 1\<rparr>,
                         \<lparr>mk_kode_mk = ''K2'', mk_nama_mk = ''Physics'', mk_sks = 1\<rparr>,
                         \<lparr>mk_kode_mk = ''K3'', mk_nama_mk = ''Chemistry'', mk_sks = 2\<rparr>],
      tbl_krs = [\<lparr>krs_id_krs = 1, krs_nim = ''S1'', krs_kode_mk = ''K1'', krs_nilai = Some ''A'',
                  krs_semester = Some 1\<rparr>,
                 \<lparr>krs_id_krs = 2, krs_nim = ''S1'', krs_kode_mk = ''K2'', krs_nilai = Some ''A-'',
                  krs_semester = Some 1\<rparr>,
                 \<lparr>krs_id_krs = 3, krs_nim = ''S1'', krs_kode_mk = ''K3'', krs_nilai = Some ''C-'',
                  krs_semester = Some 1\<rparr>],
      tbl_bobot_nilai = [\<lparr>bn_nilai = ''A'', bn_bobot = 4\<rparr>,
                         \<lparr>bn_nilai = ''A-'', bn_bobot = rnd (37 / 10)\<rparr>,
                         \<lparr>bn_nilai = ''C-'', bn_bobot = rnd (17 / 10)\<rparr>],
      krs_id_seq = 3\<rparr>"

definition swapped_db :: database where
  "swapped_db =
     order_db\<lparr>tbl_krs :=
       [\<lparr>krs_id_krs = 1, krs_nim = ''S1'', krs_kode_mk = ''K1'', krs_nilai = Some ''A'',
         krs_semester = Some 1\<rparr>,
        \<lparr>krs_id_krs = 3, krs_nim = ''S1'', krs_kode_mk = ''K3'', krs_nilai = Some ''C-'',
         krs_semester = Some 1\<rparr>,
        \<lparr>krs_id_krs = 2, krs_nim = ''S1'', krs_kode_mk = ''K2'', krs_nilai = Some ''A-'',
         krs_semester = Some 1\<rparr>]\<rparr>"

definition reversed_db :: database where
  "reversed_db = example_db\<lparr>tbl_krs := rev (tbl_krs example_db)\<rparr>"

text \<open>
  An enrollment of S1 with a NULL grade whose course code is the code of no course, added
  to the example.
\<close>

definition dangling_krs :: KRS where
  "dangling_krs = \<lparr>krs_id_krs = 5, krs_nim = ''S1'', krs_kode_mk = ''C9'', krs_nilai = None,
                    krs_semester = Some 1\<rparr>"

definition dangling_db :: database where
  "dangling_db = example_db\<lparr>tbl_krs := tbl_krs example_db @ [dangling_krs]\<rparr>"

section \<open>Properties\<close>

subsection \<open>Helper lemmas\<close>




text \<open>The loop in closed form: each component of its state on its own.\<close>

lemma ips_loop_eq:
  "ips_loop rows (tb, ts, ds) =
     (foldl float_add tb (map weighted rows), ts + total_credits rows, ds @ map ips_detail rows)"
  by (induction rows arbitrary: tb ts ds)
     (simp_all add: Let_def weighted_def ips_detail_def total_credits_def)

lemma ips_value_eq: "ips_value tb ts = Inr (guarded_quotient tb ts)"
  by (simp add: ips_value_def py_truediv_def guarded_quotient_def)

lemma calculate_ips_rows:
  "ips_query db req \<noteq> [] \<Longrightarrow>
     calculate_ips db req =
       Inr \<lparr>p_nim = r_nim req, p_nama = nama_of db (r_nim req), p_semester = r_semester req,
            p_ips = py_round2 (guarded_quotient (float_sum (map weighted (ips_query db req)))
                                 (total_credits (ips_query db req))),
            p_total_sks = total_credits (ips_query db req),
            p_total_bobot = py_round2 (float_sum (map weighted (ips_query db req))),
            p_details = map ips_detail (ips_query db req)\<rparr>"
  by (simp add: calculate_ips_def Let_def ips_loop_eq ips_value_eq float_sum_def nama_of_def)

lemma py_round2_zero: "py_round2 0 = 0"
  by (simp add: py_round2_def round_half_even_def rnd_def)

lemma total_credits_nonneg:
  "\<forall>row \<in> set rows. 0 < q_sks row \<Longrightarrow> 0 \<le> total_credits rows"
  unfolding total_credits_def by (induction rows) auto

lemma total_credits_pos:
  "rows \<noteq> [] \<Longrightarrow> \<forall>row \<in> set rows. 0 < q_sks row \<Longrightarrow> 0 < total_credits rows"
  using total_credits_nonneg [of "tl rows"]
  by (cases rows) (auto simp: total_credits_def)

lemma ips_query_tbl_mahasiswa [simp]:
  "ips_query (db\<lparr>tbl_mahasiswa := ms\<rparr>) req = ips_query db req"
  by (simp add: ips_query_def cong: if_cong)

lemma nama_of_unknown:
  "nim \<notin> set (map mhs_nim (tbl_mahasiswa db)) \<Longrightarrow> nama_of db nim = ''Unknown''"
proof -
  assume "nim \<notin> set (map mhs_nim (tbl_mahasiswa db))"
  then have "filter (\<lambda>m. mhs_nim m = nim) (tbl_mahasiswa db) = []"
    by (auto simp: filter_empty_conv)
  then show ?thesis by (simp add: nama_of_def first_mahasiswa_def)
qed

lemma validate_str_Some: "validate_str v = Some s \<longleftrightarrow> v = Some (JStr s)"
  by (auto simp: validate_str_def split: option.splits json.splits)

lemma validate_KRSSchema_nilai:
  "validate_KRSSchema int_of body = Some krs \<Longrightarrow> body ''nilai'' = Some (JStr (k_nilai krs))"
  by (auto simp: validate_KRSSchema_def validate_str_Some split: option.splits)

lemma create_krs_rows:
  "tbl_krs (fst (create_krs db krs)) = tbl_krs db
   \<or> (\<exists>k. tbl_krs (fst (create_krs db krs)) = tbl_krs db @ [k] \<and> krs_nilai k = Some (k_nilai krs))"
  by (auto simp: create_krs_def commit_krs_def Let_def split: sum.splits if_splits)

lemma ips_query_concat: "ips_query db req = concat (map (ips_rows_of db req) (tbl_krs db))"
  by (simp add: ips_query_def ips_rows_of_def [abs_def])

lemma ips_rows_of_tbl_krs [simp]: "ips_rows_of (db\<lparr>tbl_krs := ks\<rparr>) req = ips_rows_of db req"
  by (simp add: ips_rows_of_def fun_eq_iff cong: if_cong)

lemma ips_rows_of_unresolved: "unresolved_grade db e \<Longrightarrow> ips_rows_of db req e = []"
  by (auto simp: ips_rows_of_def unresolved_grade_def split: option.splits)

lemma ips_query_unresolved:
  assumes "unresolved_grade db e"
  shows "ips_query (db\<lparr>tbl_krs := xs @ e # ys\<rparr>) req = ips_query (db\<lparr>tbl_krs := xs @ ys\<rparr>) req"
  by (simp add: ips_query_concat ips_rows_of_unresolved [OF assms])

lemma first_mahasiswa_tbl_krs [simp]:
  "first_mahasiswa (db\<lparr>tbl_krs := ks\<rparr>) nim = first_mahasiswa db nim"
  by (simp add: first_mahasiswa_def)

lemma calculate_ips_cong:
  assumes "ips_query db' req = ips_query db req" and "tbl_mahasiswa db' = tbl_mahasiswa db"
  shows "calculate_ips db' req = calculate_ips db req"
proof -
  have f: "first_mahasiswa db' (r_nim req) = first_mahasiswa db (r_nim req)"
    using assms(2) by (simp add: first_mahasiswa_def)
  show ?thesis unfolding calculate_ips_def assms(1) f ..
qed

lemma krs_query_member:
  assumes "e \<in> set (tbl_krs db)" "m \<in> set (tbl_mahasiswa db)" "mhs_nim m = krs_nim e"
    and "c \<in> set (tbl_mata_kuliah db)" "mk_kode_mk c = krs_kode_mk e"
  shows "(e, m, c) \<in> set (krs_query db (krs_nim e))"
  using assms by (auto simp: krs_query_def)

lemma get_krs_all: "set (get_krs db nim None) = krs_row ` set (krs_query db nim)"
  by (simp add: get_krs_def)

lemma sum_list_mset_cong:
  fixes f :: "'a \<Rightarrow> 'b::comm_monoid_add"
  assumes "mset xs = mset ys"
  shows "sum_list (map f xs) = sum_list (map f ys)"
proof -
  have "mset (map f xs) = mset (map f ys)"
    using assms by simp
  then have "sum_mset (mset (map f xs)) = sum_mset (mset (map f ys))"
    by (rule arg_cong)
  then show ?thesis
    by (simp only: sum_mset_sum_list)
qed

lemma float_sum_exact_perm:
  assumes "mset rows' = mset rows" "accumulation_exact rows" "accumulation_exact rows'"
  shows "float_sum (map weighted rows') = float_sum (map weighted rows)"
proof -
  have "float_sum (map weighted rows') = sum_list (map weighted rows')"
    using assms(3) unfolding accumulation_exact_def .
  also have "\<dots> = sum_list (map weighted rows)"
    by (rule sum_list_mset_cong [OF assms(1)])
  also have "\<dots> = float_sum (map weighted rows)"
    using assms(2) unfolding accumulation_exact_def by (rule sym)
  finally show ?thesis .
qed

lemma total_credits_perm: "mset rows' = mset rows \<Longrightarrow> total_credits rows' = total_credits rows"
  unfolding total_credits_def by (rule sum_list_mset_cong)


lemma krs_rows_of_tbl_krs [simp]: "krs_rows_of (db\<lparr>tbl_krs := ks\<rparr>) nim = krs_rows_of db nim"
  by (simp add: krs_rows_of_def fun_eq_iff cong: if_cong)





subsection \<open>The listing of enrollments\<close>



text \<open>
  A term other than 0 is filtered on: the listing for it holds the rows of that term of
  the whole listing.
\<close>

lemma get_krs_filtered:
  assumes "t \<noteq> 0"
  shows "set (get_krs db nim (Some t)) = {r \<in> set (get_krs db nim None). row_semester r = Some t}"
proof -
  have "row_semester (krs_row x) = krs_semester (fst x)" for x
    by (cases x) (simp add: krs_row_def)
  then show ?thesis
    using assms by (auto simp: get_krs_def)
qed

text \<open>
  C5. The term filter is skipped for the term 0: asked for the enrollments of S1 in
  term 0, \<^verbatim>\<open>get_krs\<close> returns the enrollment of term 1 as well.
\<close>

theorem get_krs_term_zero_unfiltered:
  "map row_semester (get_krs term_zero_db ''S1'' (Some 0)) = [Some 0, Some 1]"
  by code_simp

subsection \<open>The semester average\<close>

text \<open>
  C1, as amended. On a non-empty join, \<^verbatim>\<open>calculate_ips\<close> returns as average the
  rounding to two decimals of the quotient of the float sum of the products, accumulated
  in the order of the joined rows, by the sum of the credits (0 when that sum is not
  positive). Two stores whose joins hold the same rows in different orders get the same
  average when the accumulation is exact in both orders.
\<close>

theorem calculate_ips_average:
  "(ips_query db req \<noteq> [] \<longrightarrow>
      (\<exists>p. calculate_ips db req = Inr p
         \<and> p_ips p = py_round2 (guarded_quotient (float_sum (map weighted (ips_query db req)))
                                   (total_credits (ips_query db req)))))
   \<and> (mset (ips_query db' req) = mset (ips_query db req)
       \<and> accumulation_exact (ips_query db req) \<and> accumulation_exact (ips_query db' req)
      \<longrightarrow> map_sum id p_ips (calculate_ips db' req) = map_sum id p_ips (calculate_ips db req))"
proof (intro conjI impI)
  assume "ips_query db req \<noteq> []"
  then show "\<exists>p. calculate_ips db req = Inr p
         \<and> p_ips p = py_round2 (guarded_quotient (float_sum (map weighted (ips_query db req)))
                                   (total_credits (ips_query db req)))"
    by (simp add: calculate_ips_rows)
next
  assume h: "mset (ips_query db' req) = mset (ips_query db req)
       \<and> accumulation_exact (ips_query db req) \<and> accumulation_exact (ips_query db' req)"
  show "map_sum id p_ips (calculate_ips db' req) = map_sum id p_ips (calculate_ips db req)"
  proof (cases "ips_query db req = []")
    case True
    with h have "ips_query db' req = []" by simp
    with True show ?thesis by (simp add: calculate_ips_def)
  next
    case False
    with h have ne: "ips_query db' req \<noteq> []" by auto
    from h have e1: "float_sum (map weighted (ips_query db' req)) = float_sum (map weighted (ips_query db req))"
      by (intro float_sum_exact_perm) blast+
    from h have e2: "total_credits (ips_query db' req) = total_credits (ips_query db req)"
      by (intro total_credits_perm) blast
    show ?thesis
      unfolding calculate_ips_rows [OF False] calculate_ips_rows [OF ne] e1 e2 by simp
  qed
qed

theorem calculate_ips_average_witness:
  "ips_query example_db req1 \<noteq> []
   \<and> mset (ips_query reversed_db req1) = mset (ips_query example_db req1)
   \<and> accumulation_exact (ips_query example_db req1) \<and> accumulation_exact (ips_query reversed_db req1)
   \<and> map_sum id p_ips (calculate_ips example_db req1) = Inr (rnd (18 / 5))
   \<and> map_sum id p_ips (calculate_ips reversed_db req1) = Inr (rnd (18 / 5))
   \<and> map_sum id p_total_sks (calculate_ips example_db req1) = Inr 5
   \<and> map_sum id p_total_bobot (calculate_ips example_db req1) = Inr 18"
proof -
  have ne: "ips_query example_db req1 \<noteq> []" by code_simp
  have pm: "mset (ips_query reversed_db req1) = mset (ips_query example_db req1)" by code_simp
  have x1: "accumulation_exact (ips_query example_db req1)" by code_simp
  have x2: "accumulation_exact (ips_query reversed_db req1)" by code_simp
  have v: "py_round2 (guarded_quotient (float_sum (map weighted (ips_query example_db req1)))
             (total_credits (ips_query example_db req1))) = rnd (18 / 5)" by code_simp
  have s: "map_sum id p_total_sks (calculate_ips example_db req1) = Inr 5" by code_simp
  have b: "map_sum id p_total_bobot (calculate_ips example_db req1) = Inr 18" by code_simp
  from calculate_ips_average [of example_db req1 reversed_db] ne pm x1 x2
  have a: "map_sum id p_ips (calculate_ips example_db req1) = Inr (rnd (18 / 5))"
    and r: "map_sum id p_ips (calculate_ips reversed_db req1) = map_sum id p_ips (calculate_ips example_db req1)"
    unfolding v by auto
  from ne pm x1 x2 a r s b show ?thesis by simp
qed

text \<open>
  C1, as stated, fails: the two orders of the same three joined rows give the averages
  2.77 and 2.78, because the float sums differ in their last bit.
\<close>

theorem calculate_ips_order_counterexample:
  "mset (ips_query swapped_db req1) = mset (ips_query order_db req1)
   \<and> map_sum id p_ips (calculate_ips order_db req1) = Inr (rnd (277 / 100))
   \<and> map_sum id p_ips (calculate_ips swapped_db req1) = Inr (rnd (278 / 100))
   \<and> rnd (277 / 100) \<noteq> rnd (278 / 100)"
  by code_simp

text \<open>
  C2. When the join of the enrollments of the student and term with the courses and the
  grade weights has no row, \<^verbatim>\<open>calculate_ips\<close> fails with the 404 error and returns no
  payload.
\<close>

theorem calculate_ips_not_found:
  assumes "ips_query db req = []"
  shows "calculate_ips db req = Inl (HTTPException 404 (Msg ''No KRS data found for this semester''))"
  using assms by (simp add: calculate_ips_def)

theorem calculate_ips_not_found_witness:
  "ips_query example_db req2 = [] \<and>
   calculate_ips example_db req2 = Inl (HTTPException 404 (Msg ''No KRS data found for this semester''))"
proof -
  have h: "ips_query example_db req2 = []" by code_simp
  from calculate_ips_not_found [OF h] h show ?thesis by simp
qed

text \<open>
  C3. On a non-empty join, the reported total and average are the roundings to two
  decimals of the float sum of the products and of its guarded quotient by the credits,
  and each reported product is the rounding of the product itself: the sum is taken over
  the products as computed, never over a value rounded to two decimals.
\<close>

theorem calculate_ips_rounding:
  assumes "ips_query db req \<noteq> []"
  shows "\<exists>p. calculate_ips db req = Inr p
           \<and> p_total_bobot p = py_round2 (float_sum (map weighted (ips_query db req)))
           \<and> p_ips p = py_round2 (guarded_quotient (float_sum (map weighted (ips_query db req)))
                                     (total_credits (ips_query db req)))
           \<and> map d_bobot_x_sks (p_details p) = map (\<lambda>row. py_round2 (weighted row)) (ips_query db req)"
  using calculate_ips_rows [OF assms] by (simp add: comp_def ips_detail_def)

theorem calculate_ips_rounding_witness:
  "ips_query example_db req1 \<noteq> [] \<and>
   (\<exists>p. calculate_ips example_db req1 = Inr p \<and> p_total_bobot p = 18 \<and> p_ips p = rnd (18 / 5)
        \<and> map d_bobot_x_sks (p_details p) = [12, 6])"
proof -
  have h: "ips_query example_db req1 \<noteq> []" by code_simp
  have a: "py_round2 (float_sum (map weighted (ips_query example_db req1))) = 18" by code_simp
  have b: "py_round2 (guarded_quotient (float_sum (map weighted (ips_query example_db req1)))
                                     (total_credits (ips_query example_db req1))) = rnd (18 / 5)" by code_simp
  have c: "map (\<lambda>row. py_round2 (weighted row)) (ips_query example_db req1) = [12, 6]" by code_simp
  from calculate_ips_rounding [OF h] h show ?thesis unfolding a b c by simp
qed

text \<open>
  C8. The guarded division never raises: \<^verbatim>\<open>ips_value\<close> is the quotient when the
  credit total is positive and 0 otherwise. A non-empty join whose credits add up to 0 is
  answered with an average of 0; when every joined course has positive credits the total
  is positive and the average is the rounded quotient, so the zero branch is not taken.
\<close>

theorem ips_division_guarded:
  "ips_value total_bobot total_sks =
     (if 0 < total_sks then Inr (rnd (total_bobot / of_int total_sks)) else Inr 0)
   \<and> (ips_query db req \<noteq> [] \<longrightarrow>
        (\<exists>p. calculate_ips db req = Inr p
           \<and> (total_credits (ips_query db req) = 0 \<longrightarrow> p_ips p = 0)
           \<and> ((\<forall>row \<in> set (ips_query db req). 0 < q_sks row) \<longrightarrow>
                0 < total_credits (ips_query db req)
                \<and> p_ips p = py_round2 (rnd (float_sum (map weighted (ips_query db req))
                                              / of_int (total_credits (ips_query db req)))))))"
proof (intro conjI impI)
  show "ips_value total_bobot total_sks =
     (if 0 < total_sks then Inr (rnd (total_bobot / of_int total_sks)) else Inr 0)"
    by (simp add: ips_value_def py_truediv_def)
next
  assume ne: "ips_query db req \<noteq> []"
  have pos: "0 < total_credits (ips_query db req)"
    if "\<forall>row \<in> set (ips_query db req). 0 < q_sks row"
    using total_credits_pos [OF ne that] .
  show "\<exists>p. calculate_ips db req = Inr p
           \<and> (total_credits (ips_query db req) = 0 \<longrightarrow> p_ips p = 0)
           \<and> ((\<forall>row \<in> set (ips_query db req). 0 < q_sks row) \<longrightarrow>
                0 < total_credits (ips_query db req)
                \<and> p_ips p = py_round2 (rnd (float_sum (map weighted (ips_query db req))
                                              / of_int (total_credits (ips_query db req)))))"
    using pos by (auto simp: calculate_ips_rows [OF ne] guarded_quotient_def py_round2_zero)
qed

theorem ips_division_guarded_witness:
  "ips_query zero_credit_db req1 \<noteq> [] \<and> total_credits (ips_query zero_credit_db req1) = 0
   \<and> map_sum id p_ips (calculate_ips zero_credit_db req1) = Inr 0
   \<and> ips_query example_db req1 \<noteq> [] \<and> map q_sks (ips_query example_db req1) = [3, 2]
   \<and> 0 < total_credits (ips_query example_db req1)
   \<and> map_sum id p_ips (calculate_ips example_db req1) = Inr (rnd (18 / 5))
   \<and> ips_value 18 5 = Inr (rnd (18 / 5)) \<and> ips_value 18 0 = Inr 0"
proof -
  have z1: "ips_query zero_credit_db req1 \<noteq> []" by code_simp
  have z2: "total_credits (ips_query zero_credit_db req1) = 0" by code_simp
  have e1: "ips_query example_db req1 \<noteq> []" by code_simp
  have e2: "map q_sks (ips_query example_db req1) = [3, 2]" by code_simp
  have e3: "\<forall>row \<in> set (ips_query example_db req1). 0 < q_sks row"
  proof
    fix row assume "row \<in> set (ips_query example_db req1)"
    then have "q_sks row \<in> set (map q_sks (ips_query example_db req1))" by simp
    then show "0 < q_sks row" unfolding e2 by auto
  qed
  have v: "py_round2 (rnd (float_sum (map weighted (ips_query example_db req1))
                           / of_int (total_credits (ips_query example_db req1)))) = rnd (18 / 5)"
    by code_simp
  from ips_division_guarded [of 18 5 zero_credit_db req1] z1 z2
  have a: "map_sum id p_ips (calculate_ips zero_credit_db req1) = Inr 0" by auto
  from ips_division_guarded [of 18 0 example_db req1] e1 e3
  have b: "0 < total_credits (ips_query example_db req1)"
    and c: "map_sum id p_ips (calculate_ips example_db req1) = Inr (rnd (18 / 5))"
    and d: "ips_value 18 0 = Inr 0"
    unfolding v by auto
  from ips_division_guarded [of 18 5 zero_credit_db req1]
  have e: "ips_value 18 5 = Inr (rnd (18 / 5))" by simp
  from z1 z2 a e1 e2 b c e d show ?thesis by (intro conjI)
qed

text \<open>
  C9. On a non-empty join, when no student row has the requested id, \<^verbatim>\<open>calculate_ips\<close>
  succeeds with the name \<^verbatim>\<open>Unknown\<close>; the other fields are what they are for any
  content of the student table.
\<close>

theorem calculate_ips_unknown_student:
  assumes "ips_query db req \<noteq> []"
    and "r_nim req \<notin> set (map mhs_nim (tbl_mahasiswa db))"
  shows "calculate_ips db req =
           Inr \<lparr>p_nim = r_nim req, p_nama = ''Unknown'', p_semester = r_semester req,
                p_ips = py_round2 (guarded_quotient (float_sum (map weighted (ips_query db req)))
                                     (total_credits (ips_query db req))),
                p_total_sks = total_credits (ips_query db req),
                p_total_bobot = py_round2 (float_sum (map weighted (ips_query db req))),
                p_details = map ips_detail (ips_query db req)\<rparr>
         \<and> (\<forall>ms. map_sum id (p_nama_update (\<lambda>_. ''Unknown''))
                    (calculate_ips (db\<lparr>tbl_mahasiswa := ms\<rparr>) req)
                  = calculate_ips db req)"
  using assms by (simp add: calculate_ips_rows nama_of_unknown)

theorem calculate_ips_unknown_student_witness:
  "ips_query orphan_db req1 \<noteq> [] \<and> r_nim req1 \<notin> set (map mhs_nim (tbl_mahasiswa orphan_db))
   \<and> map_sum id p_nama (calculate_ips orphan_db req1) = Inr ''Unknown''
   \<and> map_sum id (p_nama_update (\<lambda>_. ''Unknown'')) (calculate_ips example_db req1)
       = calculate_ips orphan_db req1"
proof -
  have h1: "ips_query orphan_db req1 \<noteq> []" by code_simp
  have h2: "r_nim req1 \<notin> set (map mhs_nim (tbl_mahasiswa orphan_db))" by code_simp
  have e: "orphan_db\<lparr>tbl_mahasiswa := tbl_mahasiswa example_db\<rparr> = example_db"
    by (simp add: orphan_db_def)
  from calculate_ips_unknown_student [OF h1 h2]
  have a: "map_sum id p_nama (calculate_ips orphan_db req1) = Inr ''Unknown''"
    and b: "map_sum id (p_nama_update (\<lambda>_. ''Unknown''))
              (calculate_ips (orphan_db\<lparr>tbl_mahasiswa := tbl_mahasiswa example_db\<rparr>) req1)
            = calculate_ips orphan_db req1"
    by simp_all
  from a b h1 h2 show ?thesis by (simp add: e)
qed

text \<open>
  C6, as amended. An enrollment whose grade is NULL or has no weight changes nothing in
  the answer of \<^verbatim>\<open>calculate_ips\<close>, error or payload: the answer is that of the store
  without the enrollment. When a student row with its student id and a course row with
  its course code exist, the enrollment is a row of the listing \<^verbatim>\<open>get_krs\<close> of its
  student.
\<close>

theorem unresolved_enrollment:
  assumes "unresolved_grade db e"
    and "tbl_krs db = xs @ e # ys"
  shows "calculate_ips db req = calculate_ips (db\<lparr>tbl_krs := xs @ ys\<rparr>) req
         \<and> (krs_nim e \<in> set (map mhs_nim (tbl_mahasiswa db))
              \<and> krs_kode_mk e \<in> set (map mk_kode_mk (tbl_mata_kuliah db))
            \<longrightarrow> (\<exists>r \<in> set (get_krs db (krs_nim e) None).
                   row_id_krs r = krs_id_krs e \<and> row_nim r = krs_nim e
                   \<and> row_kode_mk r = krs_kode_mk e \<and> row_nilai r = krs_nilai e
                   \<and> row_semester r = krs_semester e))"
proof (intro conjI impI)
  have "db = db\<lparr>tbl_krs := xs @ e # ys\<rparr>"
    using assms(2) by simp
  then have "ips_query db req = ips_query (db\<lparr>tbl_krs := xs @ ys\<rparr>) req"
    using ips_query_unresolved [OF assms(1), of xs ys req] by simp
  then show "calculate_ips db req = calculate_ips (db\<lparr>tbl_krs := xs @ ys\<rparr>) req"
    by (intro calculate_ips_cong) simp_all
next
  assume fk: "krs_nim e \<in> set (map mhs_nim (tbl_mahasiswa db))
              \<and> krs_kode_mk e \<in> set (map mk_kode_mk (tbl_mata_kuliah db))"
  then obtain m c where m: "m \<in> set (tbl_mahasiswa db)" "mhs_nim m = krs_nim e"
    and c: "c \<in> set (tbl_mata_kuliah db)" "mk_kode_mk c = krs_kode_mk e"
    by auto
  have "e \<in> set (tbl_krs db)" using assms(2) by simp
  from krs_query_member [OF this m c]
  have "krs_row (e, m, c) \<in> set (get_krs db (krs_nim e) None)"
    by (simp add: get_krs_all)
  moreover have "row_id_krs (krs_row (e, m, c)) = krs_id_krs e"
    "row_nim (krs_row (e, m, c)) = krs_nim e" "row_kode_mk (krs_row (e, m, c)) = krs_kode_mk e"
    "row_nilai (krs_row (e, m, c)) = krs_nilai e" "row_semester (krs_row (e, m, c)) = krs_semester e"
    using c by (simp_all add: krs_row_def)
  ultimately show "\<exists>r \<in> set (get_krs db (krs_nim e) None).
                   row_id_krs r = krs_id_krs e \<and> row_nim r = krs_nim e
                   \<and> row_kode_mk r = krs_kode_mk e \<and> row_nilai r = krs_nilai e
                   \<and> row_semester r = krs_semester e"
    by blast
qed

theorem unresolved_enrollment_witness:
  "unresolved_grade (ungraded_db null_grade_krs) null_grade_krs
   \<and> unresolved_grade (ungraded_db unknown_grade_krs) unknown_grade_krs
   \<and> krs_nim null_grade_krs \<in> set (map mhs_nim (tbl_mahasiswa (ungraded_db null_grade_krs)))
   \<and> krs_kode_mk null_grade_krs \<in> set (map mk_kode_mk (tbl_mata_kuliah (ungraded_db null_grade_krs)))
   \<and> krs_nim unknown_grade_krs \<in> set (map mhs_nim (tbl_mahasiswa (ungraded_db unknown_grade_krs)))
   \<and> krs_kode_mk unknown_grade_krs
        \<in> set (map mk_kode_mk (tbl_mata_kuliah (ungraded_db unknown_grade_krs)))
   \<and> calculate_ips (ungraded_db null_grade_krs) req1 = calculate_ips example_db req1
   \<and> calculate_ips (ungraded_db unknown_grade_krs) req1 = calculate_ips example_db req1
   \<and> krs_id_krs null_grade_krs
        \<in> set (map row_id_krs (get_krs (ungraded_db null_grade_krs) (krs_nim null_grade_krs) None))
   \<and> krs_id_krs unknown_grade_krs
        \<in> set (map row_id_krs (get_krs (ungraded_db unknown_grade_krs) (krs_nim unknown_grade_krs) None))"
proof -
  have u1: "unresolved_grade (ungraded_db null_grade_krs) null_grade_krs" by code_simp
  have u2: "unresolved_grade (ungraded_db unknown_grade_krs) unknown_grade_krs" by code_simp
  have k: "tbl_krs (ungraded_db e) = [hd (tbl_krs example_db)] @ e # tl (tbl_krs example_db)" for e
    by (simp add: ungraded_db_def)
  have d: "ungraded_db e\<lparr>tbl_krs := [hd (tbl_krs example_db)] @ tl (tbl_krs example_db)\<rparr> = example_db" for e
    by (simp add: ungraded_db_def example_db_def)
  have f1: "krs_nim null_grade_krs \<in> set (map mhs_nim (tbl_mahasiswa (ungraded_db null_grade_krs)))"
    by code_simp
  have f2: "krs_kode_mk null_grade_krs \<in> set (map mk_kode_mk (tbl_mata_kuliah (ungraded_db null_grade_krs)))"
    by code_simp
  have f3: "krs_nim unknown_grade_krs \<in> set (map mhs_nim (tbl_mahasiswa (ungraded_db unknown_grade_krs)))"
    by code_simp
  have f4: "krs_kode_mk unknown_grade_krs
              \<in> set (map mk_kode_mk (tbl_mata_kuliah (ungraded_db unknown_grade_krs)))"
    by code_simp
  note t1 = unresolved_enrollment [OF u1 k, of req1]
  note t2 = unresolved_enrollment [OF u2 k, of req1]
  have a1: "calculate_ips (ungraded_db null_grade_krs) req1 = calculate_ips example_db req1"
    using t1 unfolding d by (rule conjunct1)
  have a2: "calculate_ips (ungraded_db unknown_grade_krs) req1 = calculate_ips example_db req1"
    using t2 unfolding d by (rule conjunct1)
  from t1 f1 f2
  have "\<exists>r \<in> set (get_krs (ungraded_db null_grade_krs) (krs_nim null_grade_krs) None).
          row_id_krs r = krs_id_krs null_grade_krs"
    by blast
  then have l1: "krs_id_krs null_grade_krs
        \<in> set (map row_id_krs (get_krs (ungraded_db null_grade_krs) (krs_nim null_grade_krs) None))"
    by force
  from t2 f3 f4
  have "\<exists>r \<in> set (get_krs (ungraded_db unknown_grade_krs) (krs_nim unknown_grade_krs) None).
          row_id_krs r = krs_id_krs unknown_grade_krs"
    by blast
  then have l2: "krs_id_krs unknown_grade_krs
        \<in> set (map row_id_krs (get_krs (ungraded_db unknown_grade_krs) (krs_nim unknown_grade_krs) None))"
    by force
  from u1 u2 f1 f2 f3 f4 a1 a2 l1 l2 show ?thesis by (intro conjI)
qed

text \<open>
  C6, as stated, fails: an enrollment with a NULL grade whose course code is the code of
  no course leaves the answer of \<^verbatim>\<open>calculate_ips\<close> as it is, but it is not a row of the
  listing of its student, although the student exists.
\<close>

theorem unresolved_enrollment_unlisted_counterexample:
  "unresolved_grade dangling_db dangling_krs
   \<and> dangling_krs \<in> set (tbl_krs dangling_db)
   \<and> krs_nim dangling_krs \<in> set (map mhs_nim (tbl_mahasiswa dangling_db))
   \<and> calculate_ips dangling_db req1 = calculate_ips example_db req1
   \<and> krs_id_krs dangling_krs \<notin> set (map row_id_krs (get_krs dangling_db (krs_nim dangling_krs) None))"
  by code_simp

subsection \<open>Registration of a student\<close>

text \<open>
  C7. When a student row with the id of the request exists, \<^verbatim>\<open>create_mahasiswa\<close> fails
  with an error and the store, hence the student table, is exactly as it was.
\<close>

theorem create_mahasiswa_existing:
  assumes "s_nim mhs \<in> set (map mhs_nim (tbl_mahasiswa db))"
  shows "create_mahasiswa db mhs = (db, Inl (HTTPException 500 (Str_of IntegrityError)))"
  using assms by (simp add: create_mahasiswa_def commit_mahasiswa_def)

theorem create_mahasiswa_existing_witness:
  "s_nim dup \<in> set (map mhs_nim (tbl_mahasiswa example_db)) \<and>
   create_mahasiswa example_db dup = (example_db, Inl (HTTPException 500 (Str_of IntegrityError)))"
proof -
  have h: "s_nim dup \<in> set (map mhs_nim (tbl_mahasiswa example_db))"
    by (simp add: dup_def example_db_def)
  from create_mahasiswa_existing [OF h] h show ?thesis by simp
qed

subsection \<open>Creation of an enrollment\<close>

text \<open>
  C10. A body whose \<^verbatim>\<open>nilai\<close> is absent or null is rejected by the validation with
  the store unchanged; and whatever the body, the route adds at most one enrollment,
  whose grade is the string that the body gives, never NULL.
\<close>

theorem post_krs_requires_grade:
  "(body ''nilai'' = None \<or> body ''nilai'' = Some JNull
      \<longrightarrow> post_krs int_of db body = (db, Inl (HTTPException 422 Validation)))
   \<and> (tbl_krs (fst (post_krs int_of db body)) = tbl_krs db
      \<or> (\<exists>k g. tbl_krs (fst (post_krs int_of db body)) = tbl_krs db @ [k]
             \<and> krs_nilai k = Some g \<and> body ''nilai'' = Some (JStr g)))"
proof (intro conjI impI)
  assume "body ''nilai'' = None \<or> body ''nilai'' = Some JNull"
  then have "validate_str (body ''nilai'') = None"
    by (auto simp: validate_str_def)
  then have "validate_KRSSchema int_of body = None"
    by (simp add: validate_KRSSchema_def split: option.splits)
  then show "post_krs int_of db body = (db, Inl (HTTPException 422 Validation))"
    by (simp add: post_krs_def)
next
  show "tbl_krs (fst (post_krs int_of db body)) = tbl_krs db
      \<or> (\<exists>k g. tbl_krs (fst (post_krs int_of db body)) = tbl_krs db @ [k]
             \<and> krs_nilai k = Some g \<and> body ''nilai'' = Some (JStr g))"
  proof (cases "validate_KRSSchema int_of body")
    case None
    then show ?thesis by (simp add: post_krs_def)
  next
    case (Some krs)
    then have p: "post_krs int_of db body = create_krs db krs"
      by (simp add: post_krs_def)
    from validate_KRSSchema_nilai [OF Some] create_krs_rows [of db krs]
    show ?thesis unfolding p by auto
  qed
qed

theorem post_krs_requires_grade_witness:
  "null_grade_body ''nilai'' = Some JNull
   \<and> post_krs strict_int example_db null_grade_body = (example_db, Inl (HTTPException 422 Validation))
   \<and> map krs_nilai (tbl_krs (fst (post_krs strict_int example_db graded_body)))
       = [Some ''A'', Some ''B'', Some ''A'']"
proof -
  have h: "null_grade_body ''nilai'' = Some JNull" by (simp add: null_grade_body_def)
  have g: "map krs_nilai (tbl_krs (fst (post_krs strict_int example_db graded_body)))
       = [Some ''A'', Some ''B'', Some ''A'']" by code_simp
  from post_krs_requires_grade [of null_grade_body strict_int example_db] h g
  show ?thesis by simp
qed

end
